theory Spec2Isabelle
  imports Main
begin

section \<open>Values, errors and the HTTP library\<close>

text \<open>
  The module \<^verbatim>\<open>pixabay.py\<close> is dynamically typed: every argument of \<^verbatim>\<open>search\<close> and
  the constructor's \<^verbatim>\<open>api_key\<close> may hold any Python value. The values that matter to
  the payload are strings, integers (unbounded), booleans and \<^verbatim>\<open>None\<close>.
\<close>

datatype pyval = PyNone | PyBool bool | PyInt int | PyStr string

text \<open>The parsed JSON document that \<^verbatim>\<open>resp.json()\<close> hands back.\<close>

datatype jsonval =
    JNull
  | JBool bool
  | JNum int
  | JStr string
  | JArr "jsonval list"
  | JObj "(string \<times> jsonval) list"

text \<open>
  \<^verbatim>\<open>ValueError\<close> is the one exception \<^verbatim>\<open>search\<close> raises itself (the specification
  calls it RemoteRequestError); its argument is the message. The other two come out of
  the \<^verbatim>\<open>requests\<close> library and are not caught by this module: \<^verbatim>\<open>get\<close> raising
  because no response arrived, and \<^verbatim>\<open>resp.json()\<close> raising on a body that is not JSON.
  The constructors only say where an exception was raised: in Python the parser's
  exception is itself an instance of \<^verbatim>\<open>ValueError\<close>, so nothing here is stated about
  telling the two apart by class.
\<close>

datatype error =
    ValueError string
  | RequestException string
  | JSONDecodeError string

text \<open>
  The request handed to \<^verbatim>\<open>requests.get\<close>: the URL and the \<^verbatim>\<open>params\<close> dictionary. A
  Python dictionary keeps insertion order, and that order is the order of the query
  string, so the dictionary is an association list.
\<close>

record request =
  url :: string
  params :: "(string \<times> pyval) list"

text \<open>
  The response object: the attributes \<^verbatim>\<open>status_code\<close> and \<^verbatim>\<open>text\<close> that
  \<^verbatim>\<open>search\<close> reads, and the outcome of calling its method \<^verbatim>\<open>json()\<close>.
\<close>

record response =
  status_code :: int
  "text" :: string
  json :: "error + jsonval"

text \<open>What the remote side does with a request: no response (the library raises) or one.\<close>

type_synonym network = "request \<Rightarrow> error + response"

section \<open>The client object\<close>

record client =
  api_key :: pyval
  root_url :: string

text \<open>
  The state a call runs in: the client object \<^verbatim>\<open>self\<close>, which a method could assign
  to, and the log of the GET requests issued so far.
\<close>

record pystate =
  this :: client
  sent :: "request list"

text \<open>\<^verbatim>\<open>IPixabay.__init__\<close>: two attribute assignments, no check, no raise.\<close>

definition IPixabay_init :: "pyval \<Rightarrow> error + client" where
  "IPixabay_init k = Inr \<lparr>api_key = k, root_url = ''https://pixabay.com/api/''\<rparr>"

text \<open>\<^verbatim>\<open>Image\<close> and \<^verbatim>\<open>Video\<close> define no constructor of their own: both inherit it.\<close>

definition Image_init :: "pyval \<Rightarrow> error + client" where
  "Image_init k = IPixabay_init k"

definition Video_init :: "pyval \<Rightarrow> error + client" where
  "Video_init k = IPixabay_init k"

text \<open>\<^verbatim>\<open>requests.get(url, params=payload)\<close>: the request goes out, the answer comes back.\<close>

definition get :: "network \<Rightarrow> string \<Rightarrow> (string \<times> pyval) list \<Rightarrow> pystate
    \<Rightarrow> (error + response) \<times> pystate" where
  "get net u ps s =
     (net \<lparr>url = u, params = ps\<rparr>, s\<lparr>sent := sent s @ [\<lparr>url = u, params = ps\<rparr>]\<rparr>)"

section \<open>The arguments of a call\<close>

text \<open>
  Every parameter of both \<^verbatim>\<open>search\<close> methods has a default, so a caller supplies any
  subset of them: a field is \<open>None\<close> when the caller left the argument out and
  \<open>Some v\<close> when the caller passed \<open>v\<close>. The thirteen parameters the two signatures
  share are the base record; each method adds its own. The parameter \<^verbatim>\<open>id\<close> is
  \<open>id_arg\<close> here, since \<open>id\<close> is the identity function of HOL.
\<close>

record search_args =
  q :: "pyval option"
  lang :: "pyval option"
  id_arg :: "pyval option"
  category :: "pyval option"
  min_width :: "pyval option"
  min_height :: "pyval option"
  editors_choice :: "pyval option"
  safesearch :: "pyval option"
  order :: "pyval option"
  page :: "pyval option"
  per_page :: "pyval option"
  callback :: "pyval option"
  pretty :: "pyval option"

record image_args = search_args +
  image_type :: "pyval option"
  orientation :: "pyval option"
  colors :: "pyval option"

record video_args = search_args +
  video_type :: "pyval option"

text \<open>Python's binding of a parameter: the argument when there is one, else the default.\<close>

definition param :: "pyval option \<Rightarrow> pyval \<Rightarrow> pyval" where
  "param supplied dflt = (case supplied of None \<Rightarrow> dflt | Some v \<Rightarrow> v)"

section \<open>Image search\<close>

text \<open>
  The dictionary \<^verbatim>\<open>payload\<close> of \<^verbatim>\<open>Image.search\<close>, entry by entry in the order of the
  source; each parameter is read with the default of the signature.
\<close>

definition Image_payload :: "client \<Rightarrow> image_args \<Rightarrow> (string \<times> pyval) list" where
  "Image_payload self a =
     [(''key'', api_key self),
      (''q'', param (q a) (PyStr ''yellow flower'')),
      (''lang'', param (lang a) (PyStr ''en'')),
      (''id'', param (id_arg a) (PyStr '''')),
      (''image_type'', param (image_type a) (PyStr ''all'')),
      (''orientation'', param (orientation a) (PyStr ''all'')),
      (''category'', param (category a) (PyStr '''')),
      (''min_width'', param (min_width a) (PyInt 0)),
      (''min_height'', param (min_height a) (PyInt 0)),
      (''colors'', param (colors a) (PyStr '''')),
      (''editors_choice'', param (editors_choice a) (PyStr ''false'')),
      (''safesearch'', param (safesearch a) (PyStr ''false'')),
      (''order'', param (order a) (PyStr ''popular'')),
      (''page'', param (page a) (PyInt 1)),
      (''per_page'', param (per_page a) (PyInt 20)),
      (''callback'', param (callback a) (PyStr '''')),
      (''pretty'', param (pretty a) (PyStr ''false''))]"

text \<open>
  \<^verbatim>\<open>Image.search\<close>: build the payload, GET the root URL, return the parsed body on
  status 200 and raise \<^verbatim>\<open>ValueError(resp.text)\<close> otherwise. An exception of the library
  (from \<^verbatim>\<open>get\<close> or from \<^verbatim>\<open>resp.json()\<close>) is not caught and reaches the caller.
\<close>

definition Image_search :: "network \<Rightarrow> image_args \<Rightarrow> pystate \<Rightarrow> (error + jsonval) \<times> pystate" where
  "Image_search net a s =
     (let payload = Image_payload (this s) a;
          (r, s') = get net (root_url (this s)) payload s
      in case r of
           Inl e \<Rightarrow> (Inl e, s')
         | Inr resp \<Rightarrow>
             if status_code resp = 200 then (json resp, s')
             else (Inl (ValueError (text resp)), s'))"

section \<open>Video search\<close>

definition Video_payload :: "client \<Rightarrow> video_args \<Rightarrow> (string \<times> pyval) list" where
  "Video_payload self a =
     [(''key'', api_key self),
      (''q'', param (q a) (PyStr ''yellow flower'')),
      (''lang'', param (lang a) (PyStr ''en'')),
      (''id'', param (id_arg a) (PyStr '''')),
      (''video_type'', param (video_type a) (PyStr ''all'')),
      (''category'', param (category a) (PyStr '''')),
      (''min_width'', param (min_width a) (PyInt 0)),
      (''min_height'', param (min_height a) (PyInt 0)),
      (''editors_choice'', param (editors_choice a) (PyStr ''false'')),
      (''safesearch'', param (safesearch a) (PyStr ''false'')),
      (''order'', param (order a) (PyStr ''popular'')),
      (''page'', param (page a) (PyInt 1)),
      (''per_page'', param (per_page a) (PyInt 20)),
      (''callback'', param (callback a) (PyStr '''')),
      (''pretty'', param (pretty a) (PyStr ''false''))]"

text \<open>\<^verbatim>\<open>Video.search\<close>: the same steps, on the root URL followed by \<^verbatim>\<open>videos/\<close>.\<close>

definition Video_search :: "network \<Rightarrow> video_args \<Rightarrow> pystate \<Rightarrow> (error + jsonval) \<times> pystate" where
  "Video_search net a s =
     (let payload = Video_payload (this s) a;
          (r, s') = get net (root_url (this s) @ ''videos/'') payload s
      in case r of
           Inl e \<Rightarrow> (Inl e, s')
         | Inr resp \<Rightarrow>
             if status_code resp = 200 then (json resp, s')
             else (Inl (ValueError (text resp)), s'))"

section \<open>The documented contract\<close>

text \<open>
  The table of defaults as the specification documents it (section 6), one list per
  resource type, in the order of the documented query parameters.
\<close>

definition documented_defaults_image :: "(string \<times> pyval) list" where
  "documented_defaults_image =
     [(''q'', PyStr ''yellow flower''),
      (''lang'', PyStr ''en''),
      (''id'', PyStr []),
      (''image_type'', PyStr ''all''),
      (''orientation'', PyStr ''all''),
      (''category'', PyStr []),
      (''min_width'', PyInt 0),
      (''min_height'', PyInt 0),
      (''colors'', PyStr []),
      (''editors_choice'', PyStr ''false''),
      (''safesearch'', PyStr ''false''),
      (''order'', PyStr ''popular''),
      (''page'', PyInt 1),
      (''per_page'', PyInt 20),
      (''callback'', PyStr []),
      (''pretty'', PyStr ''false'')]"

definition documented_defaults_video :: "(string \<times> pyval) list" where
  "documented_defaults_video =
     [(''q'', PyStr ''yellow flower''),
      (''lang'', PyStr ''en''),
      (''id'', PyStr []),
      (''video_type'', PyStr ''all''),
      (''category'', PyStr []),
      (''min_width'', PyInt 0),
      (''min_height'', PyInt 0),
      (''editors_choice'', PyStr ''false''),
      (''safesearch'', PyStr ''false''),
      (''order'', PyStr ''popular''),
      (''page'', PyInt 1),
      (''per_page'', PyInt 20),
      (''callback'', PyStr []),
      (''pretty'', PyStr ''false'')]"

text \<open>
  The keyword arguments of a call under their Python names, in the order of the
  signature, and the dictionary of those the caller really wrote.
\<close>

definition Image_kwargs :: "image_args \<Rightarrow> (string \<times> pyval option) list" where
  "Image_kwargs a =
     [(''q'', q a), (''lang'', lang a), (''id'', id_arg a), (''image_type'', image_type a),
      (''orientation'', orientation a), (''category'', category a),
      (''min_width'', min_width a), (''min_height'', min_height a), (''colors'', colors a),
      (''editors_choice'', editors_choice a), (''safesearch'', safesearch a),
      (''order'', order a), (''page'', page a), (''per_page'', per_page a),
      (''callback'', callback a), (''pretty'', pretty a)]"

definition Video_kwargs :: "video_args \<Rightarrow> (string \<times> pyval option) list" where
  "Video_kwargs a =
     [(''q'', q a), (''lang'', lang a), (''id'', id_arg a), (''video_type'', video_type a),
      (''category'', category a), (''min_width'', min_width a),
      (''min_height'', min_height a), (''editors_choice'', editors_choice a),
      (''safesearch'', safesearch a), (''order'', order a), (''page'', page a),
      (''per_page'', per_page a), (''callback'', callback a), (''pretty'', pretty a)]"

definition supplied :: "(string \<times> pyval option) list \<Rightarrow> string \<rightharpoonup> pyval" where
  "supplied kws n = (case map_of kws n of Some (Some v) \<Rightarrow> Some v | _ \<Rightarrow> None)"

text \<open>An argument that is left out or is one of the strings the docstring accepts.\<close>

definition boolean_string :: "pyval option \<Rightarrow> bool" where
  "boolean_string x = (x = None \<or> x = Some (PyStr ''true'') \<or> x = Some (PyStr ''false''))"

section \<open>Calls and answers used as examples\<close>

text \<open>A call with no argument at all, \<^verbatim>\<open>search()\<close>.\<close>

definition no_image_args :: image_args where
  "no_image_args =
     \<lparr>q = None, lang = None, id_arg = None, category = None, min_width = None,
      min_height = None, editors_choice = None, safesearch = None, order = None,
      page = None, per_page = None, callback = None, pretty = None,
      image_type = None, orientation = None, colors = None\<rparr>"

definition no_video_args :: video_args where
  "no_video_args =
     \<lparr>q = None, lang = None, id_arg = None, category = None, min_width = None,
      min_height = None, editors_choice = None, safesearch = None, order = None,
      page = None, per_page = None, callback = None, pretty = None,
      video_type = None\<rparr>"

text \<open>
  A call that passes the four integer arguments, whatever else it passes:
  \<^verbatim>\<open>search(..., min_width=w, min_height=h, page=p, per_page=n)\<close>.
\<close>

definition with_integers ::
    "int \<Rightarrow> int \<Rightarrow> int \<Rightarrow> int \<Rightarrow> 'a search_args_scheme \<Rightarrow> 'a search_args_scheme" where
  "with_integers w h p n a =
     a\<lparr>min_width := Some (PyInt w), min_height := Some (PyInt h),
       page := Some (PyInt p), per_page := Some (PyInt n)\<rparr>"

text \<open>A remote side that answers every request with the same response.\<close>

definition answering :: "response \<Rightarrow> network" where
  "answering resp = (\<lambda>_. Inr resp)"

text \<open>A client as \<^verbatim>\<open>Image("api_key")\<close> leaves it, before any request.\<close>

definition example_state :: pystate where
  "example_state =
     \<lparr>this = \<lparr>api_key = PyStr ''api_key'', root_url = ''https://pixabay.com/api/''\<rparr>,
      sent = []\<rparr>"

text \<open>The two simulated responses of the specification's testable properties.\<close>

definition hits_response :: response where
  "hits_response =
     \<lparr>status_code = 200,
      text = ''{\"total\":1,\"hits\":[{\"id\":1}]}'',
      json = Inr (JObj [(''total'', JNum 1), (''hits'', JArr [JObj [(''id'', JNum 1)]])])\<rparr>"

definition bad_request_response :: response where
  "bad_request_response =
     \<lparr>status_code = 400,
      text = ''Bad request'',
      json = Inl (JSONDecodeError ''Expecting value'')\<rparr>"

section \<open>What a call does to the state, and what it returns\<close>

lemma Image_search_state:
  "snd (Image_search net a s) =
     s\<lparr>sent := sent s @ [\<lparr>url = root_url (this s), params = Image_payload (this s) a\<rparr>]\<rparr>"
  by (simp add: Image_search_def get_def Let_def split: sum.split)

lemma Video_search_state:
  "snd (Video_search net a s) =
     s\<lparr>sent := sent s @ [\<lparr>url = root_url (this s) @ ''videos/'',
                             params = Video_payload (this s) a\<rparr>]\<rparr>"
  by (simp add: Video_search_def get_def Let_def split: sum.split)

lemma Image_search_request:
  "last (sent (snd (Image_search net a s))) =
     \<lparr>url = root_url (this s), params = Image_payload (this s) a\<rparr>"
  by (simp add: Image_search_state)

lemma Video_search_request:
  "last (sent (snd (Video_search net a s))) =
     \<lparr>url = root_url (this s) @ ''videos/'', params = Video_payload (this s) a\<rparr>"
  by (simp add: Video_search_state)

lemma Image_search_result:
  "fst (Image_search net a s) =
     (case net \<lparr>url = root_url (this s), params = Image_payload (this s) a\<rparr> of
        Inl e \<Rightarrow> Inl e
      | Inr resp \<Rightarrow>
          if status_code resp = 200 then json resp else Inl (ValueError (text resp)))"
  by (simp add: Image_search_def get_def Let_def split: sum.split)

lemma Video_search_result:
  "fst (Video_search net a s) =
     (case net \<lparr>url = root_url (this s) @ ''videos/'', params = Video_payload (this s) a\<rparr> of
        Inl e \<Rightarrow> Inl e
      | Inr resp \<Rightarrow>
          if status_code resp = 200 then json resp else Inl (ValueError (text resp)))"
  by (simp add: Video_search_def get_def Let_def split: sum.split)

section \<open>Classification of the response\<close>

text \<open>
  C1, as the code has it. When the GET yields a response, both searches look at the status
  code only: on 200 the outcome of the search is exactly the outcome of \<^verbatim>\<open>resp.json()\<close>,
  which is the parsed body, returned, when the body is JSON, and the parser's own
  exception, handed on unchanged, when it is not; on every other status the outcome is
  \<^verbatim>\<open>ValueError\<close> (the specification's RemoteRequestError) carrying the raw text of the
  body. Image search and video search classify in the same way.
\<close>

theorem search_classifies_response:
  assumes "net \<lparr>url = root_url (this s), params = Image_payload (this s) a\<rparr> = Inr resp"
      and "net' \<lparr>url = root_url (this s') @ ''videos/'', params = Video_payload (this s') b\<rparr>
             = Inr resp'"
  shows "fst (Image_search net a s) =
           (if status_code resp = 200 then json resp else Inl (ValueError (text resp)))
       \<and> fst (Video_search net' b s') =
           (if status_code resp' = 200 then json resp' else Inl (ValueError (text resp')))"
  using assms by (simp add: Image_search_result Video_search_result)

text \<open>
  C1, witness: the two simulated responses of the specification, each on both searches.
  Status 200 with the body \<^verbatim>\<open>{"total":1,"hits":[{"id":1}]}\<close> returns the parsed
  structure; status 400 with the body \<^verbatim>\<open>Bad request\<close> fails with that very text.
\<close>

theorem search_classifies_response_witness:
  "answering hits_response
       \<lparr>url = root_url (this example_state),
        params = Image_payload (this example_state) no_image_args\<rparr> = Inr hits_response
   \<and> answering bad_request_response
       \<lparr>url = root_url (this example_state) @ ''videos/'',
        params = Video_payload (this example_state) no_video_args\<rparr> = Inr bad_request_response
   \<and> fst (Image_search (answering hits_response) no_image_args example_state) =
       Inr (JObj [(''total'', JNum 1), (''hits'', JArr [JObj [(''id'', JNum 1)]])])
   \<and> fst (Video_search (answering bad_request_response) no_video_args example_state) =
       Inl (ValueError ''Bad request'')
   \<and> answering bad_request_response
       \<lparr>url = root_url (this example_state),
        params = Image_payload (this example_state) no_image_args\<rparr> = Inr bad_request_response
   \<and> answering hits_response
       \<lparr>url = root_url (this example_state) @ ''videos/'',
        params = Video_payload (this example_state) no_video_args\<rparr> = Inr hits_response
   \<and> fst (Image_search (answering bad_request_response) no_image_args example_state) =
       Inl (ValueError ''Bad request'')
   \<and> fst (Video_search (answering hits_response) no_video_args example_state) =
       Inr (JObj [(''total'', JNum 1), (''hits'', JArr [JObj [(''id'', JNum 1)]])])"
  using
    search_classifies_response
      [of "answering hits_response" example_state no_image_args hits_response
          "answering bad_request_response" example_state no_video_args bad_request_response]
    search_classifies_response
      [of "answering bad_request_response" example_state no_image_args bad_request_response
          "answering hits_response" example_state no_video_args hits_response]
  by (simp add: answering_def hits_response_def bad_request_response_def)

text \<open>
  C1, counterexample to the claim as written ("status 200: search returns the parsed
  body"): the response has status 200 and a body that is not JSON, so \<^verbatim>\<open>resp.json()\<close>
  raises; the search returns nothing, it fails with the exception of the parser.
\<close>

theorem ok_status_without_json_counterexample:
  "status_code \<lparr>status_code = 200, text = ''<html>Maintenance</html>'',
                 json = Inl (JSONDecodeError ''Expecting value'')\<rparr> = 200
   \<and> fst (Image_search
         (answering \<lparr>status_code = 200, text = ''<html>Maintenance</html>'',
                      json = Inl (JSONDecodeError ''Expecting value'')\<rparr>)
         no_image_args
         \<lparr>this = \<lparr>api_key = PyStr ''api_key'', root_url = ''https://pixabay.com/api/''\<rparr>,
          sent = []\<rparr>)
     = Inl (JSONDecodeError ''Expecting value'')"
  by (simp add: Image_search_result answering_def)

section \<open>The payload\<close>

text \<open>
  C2. For every client and every remote side, a search called with no argument sends a
  payload whose entries are the API key followed by exactly the documented defaults:
  q "yellow flower", lang "en", id "", image_type or video_type "all", orientation "all"
  (image only), category "", min_width 0, min_height 0, colors "" (image only),
  editors_choice "false", safesearch "false", order "popular", page 1, per_page 20,
  callback "", pretty "false".
\<close>

theorem search_no_arguments_payload:
  "params (last (sent (snd (Image_search net no_image_args s)))) =
     [(''key'', api_key (this s)),
      (''q'', PyStr ''yellow flower''),
      (''lang'', PyStr ''en''),
      (''id'', PyStr []),
      (''image_type'', PyStr ''all''),
      (''orientation'', PyStr ''all''),
      (''category'', PyStr []),
      (''min_width'', PyInt 0),
      (''min_height'', PyInt 0),
      (''colors'', PyStr []),
      (''editors_choice'', PyStr ''false''),
      (''safesearch'', PyStr ''false''),
      (''order'', PyStr ''popular''),
      (''page'', PyInt 1),
      (''per_page'', PyInt 20),
      (''callback'', PyStr []),
      (''pretty'', PyStr ''false'')]
   \<and> params (last (sent (snd (Video_search net' no_video_args s')))) =
     [(''key'', api_key (this s')),
      (''q'', PyStr ''yellow flower''),
      (''lang'', PyStr ''en''),
      (''id'', PyStr []),
      (''video_type'', PyStr ''all''),
      (''category'', PyStr []),
      (''min_width'', PyInt 0),
      (''min_height'', PyInt 0),
      (''editors_choice'', PyStr ''false''),
      (''safesearch'', PyStr ''false''),
      (''order'', PyStr ''popular''),
      (''page'', PyInt 1),
      (''per_page'', PyInt 20),
      (''callback'', PyStr []),
      (''pretty'', PyStr ''false'')]"
  by (simp add: Image_search_request Video_search_request Image_payload_def Video_payload_def
        no_image_args_def no_video_args_def param_def)

text \<open>
  Merging the arguments a caller wrote over a list of defaults, name by name, is the
  map of the defaults overridden by the map of the arguments written.
\<close>

lemma supplied_Cons:
  "supplied ((k, x) # kws) n = (if n = k then x else supplied kws n)"
  by (simp add: supplied_def split: option.split)

lemma merge_over_defaults:
  "map fst kws = map fst ds \<Longrightarrow>
   map_of (map2 (\<lambda>(k, x) (_, d). (k, param x d)) kws ds) = map_of ds ++ supplied kws"
proof (induction kws arbitrary: ds)
  case Nil
  then show ?case by (simp add: supplied_def fun_eq_iff map_add_def)
next
  case (Cons kx kws)
  then obtain kd ds' where ds: "ds = kd # ds'" by (cases ds) auto
  obtain k x where kx: "kx = (k, x)" by (cases kx)
  obtain k' d where kd: "kd = (k', d)" by (cases kd)
  from Cons.prems ds kx kd have same: "k' = k" "map fst kws = map fst ds'" by auto
  have IH: "map_of (map2 (\<lambda>(k, x) (_, d). (k, param x d)) kws ds') = map_of ds' ++ supplied kws"
    by (rule Cons.IH [OF same(2)])
  show ?case
  proof (rule ext)
    fix n
    show "map_of (map2 (\<lambda>(k, x) (_, d). (k, param x d)) (kx # kws) ds) n
            = (map_of ds ++ supplied (kx # kws)) n"
      using IH
      by (cases x)
         (auto simp add: ds kx kd same(1) supplied_Cons map_add_def param_def
            split: option.split)
  qed
qed

lemma Image_payload_merge:
  "map_of (Image_payload self a) =
     (map_of documented_defaults_image ++ supplied (Image_kwargs a))(''key'' \<mapsto> api_key self)"
proof -
  have shape: "Image_payload self a =
      (''key'', api_key self) #
        map2 (\<lambda>(k, x) (_, d). (k, param x d)) (Image_kwargs a) documented_defaults_image"
    by (simp add: Image_payload_def Image_kwargs_def documented_defaults_image_def)
  have names: "map fst (Image_kwargs a) = map fst documented_defaults_image"
    by (simp add: Image_kwargs_def documented_defaults_image_def)
  show ?thesis
    unfolding shape by (simp only: map_of.simps fst_conv snd_conv merge_over_defaults [OF names])
qed

lemma Video_payload_merge:
  "map_of (Video_payload self a) =
     (map_of documented_defaults_video ++ supplied (Video_kwargs a))(''key'' \<mapsto> api_key self)"
proof -
  have shape: "Video_payload self a =
      (''key'', api_key self) #
        map2 (\<lambda>(k, x) (_, d). (k, param x d)) (Video_kwargs a) documented_defaults_video"
    by (simp add: Video_payload_def Video_kwargs_def documented_defaults_video_def)
  have names: "map fst (Video_kwargs a) = map fst documented_defaults_video"
    by (simp add: Video_kwargs_def documented_defaults_video_def)
  show ?thesis
    unfolding shape by (simp only: map_of.simps fst_conv snd_conv merge_over_defaults [OF names])
qed

text \<open>
  C3. For every subset of arguments the caller supplies, the payload sent is the
  documented defaults overridden by the supplied arguments (a supplied field carries
  exactly the supplied value, an omitted one its documented default), with the API key
  added; and every documented field name is present in the payload, each once, so no
  field is left unresolved.
\<close>

theorem search_payload_merges_over_defaults:
  "map_of (params (last (sent (snd (Image_search net a s))))) =
     (map_of documented_defaults_image ++ supplied (Image_kwargs a))
       (''key'' \<mapsto> api_key (this s))
   \<and> map fst (params (last (sent (snd (Image_search net a s))))) =
       ''key'' # map fst documented_defaults_image
   \<and> distinct (map fst (params (last (sent (snd (Image_search net a s))))))
   \<and> map_of (params (last (sent (snd (Video_search net' b s'))))) =
     (map_of documented_defaults_video ++ supplied (Video_kwargs b))
       (''key'' \<mapsto> api_key (this s'))
   \<and> map fst (params (last (sent (snd (Video_search net' b s'))))) =
       ''key'' # map fst documented_defaults_video
   \<and> distinct (map fst (params (last (sent (snd (Video_search net' b s'))))))"
proof -
  have "map fst (Image_payload (this s) a) = ''key'' # map fst documented_defaults_image"
    by (simp add: Image_payload_def documented_defaults_image_def)
  moreover have "distinct (map fst (Image_payload (this s) a))"
    by (simp add: Image_payload_def)
  moreover have "map fst (Video_payload (this s') b) = ''key'' # map fst documented_defaults_video"
    by (simp add: Video_payload_def documented_defaults_video_def)
  moreover have "distinct (map fst (Video_payload (this s') b))"
    by (simp add: Video_payload_def)
  ultimately show ?thesis
    by (simp only: Image_search_request Video_search_request request.simps
          Image_payload_merge Video_payload_merge simp_thms)
qed

text \<open>
  C3, on the specification's end-to-end scenario \<^verbatim>\<open>search(q="apple", page=1)\<close>: the
  payload carries the two supplied values and the defaults of the fields left out, on
  image search and on video search.
\<close>

theorem search_payload_merges_over_defaults_witness:
  "map_of (params (last (sent (snd
      (Image_search (answering hits_response)
         (no_image_args\<lparr>q := Some (PyStr ''apple''), page := Some (PyInt 1)\<rparr>)
         example_state))))) ''q'' = Some (PyStr ''apple'')
   \<and> map_of (params (last (sent (snd
      (Image_search (answering hits_response)
         (no_image_args\<lparr>q := Some (PyStr ''apple''), page := Some (PyInt 1)\<rparr>)
         example_state))))) ''page'' = Some (PyInt 1)
   \<and> map_of (params (last (sent (snd
      (Image_search (answering hits_response)
         (no_image_args\<lparr>q := Some (PyStr ''apple''), page := Some (PyInt 1)\<rparr>)
         example_state))))) ''lang'' = Some (PyStr ''en'')
   \<and> map_of (params (last (sent (snd
      (Image_search (answering hits_response)
         (no_image_args\<lparr>q := Some (PyStr ''apple''), page := Some (PyInt 1)\<rparr>)
         example_state))))) ''order'' = Some (PyStr ''popular'')
   \<and> map_of (params (last (sent (snd
      (Image_search (answering hits_response)
         (no_image_args\<lparr>q := Some (PyStr ''apple''), page := Some (PyInt 1)\<rparr>)
         example_state))))) ''per_page'' = Some (PyInt 20)
   \<and> map_of (params (last (sent (snd
      (Video_search (answering hits_response)
         (no_video_args\<lparr>q := Some (PyStr ''apple''), page := Some (PyInt 1)\<rparr>)
         example_state))))) ''q'' = Some (PyStr ''apple'')
   \<and> map_of (params (last (sent (snd
      (Video_search (answering hits_response)
         (no_video_args\<lparr>q := Some (PyStr ''apple''), page := Some (PyInt 1)\<rparr>)
         example_state))))) ''video_type'' = Some (PyStr ''all'')"
proof -
  note merged =
    search_payload_merges_over_defaults
      [of "answering hits_response"
          "no_image_args\<lparr>q := Some (PyStr ''apple''), page := Some (PyInt 1)\<rparr>"
          example_state
          "answering hits_response"
          "no_video_args\<lparr>q := Some (PyStr ''apple''), page := Some (PyInt 1)\<rparr>"
          example_state]
  show ?thesis
    unfolding merged [THEN conjunct1]
      merged [THEN conjunct2, THEN conjunct2, THEN conjunct2, THEN conjunct1]
    by (simp add: documented_defaults_image_def documented_defaults_video_def supplied_def
          Image_kwargs_def Video_kwargs_def no_image_args_def no_video_args_def map_add_def)
qed

text \<open>
  C4. For every API key and every options value, the payload sent by image search and by
  video search has an entry under the name \<^verbatim>\<open>key\<close> whose value is the client's API
  key; for a client fresh from the constructor that is the key given to the constructor.
\<close>

theorem search_payload_has_key:
  "map_of (params (last (sent (snd (Image_search net a s))))) ''key'' = Some (api_key (this s))
   \<and> map_of (params (last (sent (snd (Video_search net' b s'))))) ''key'' = Some (api_key (this s'))
   \<and> (case Image_init k of
         Inl e \<Rightarrow> False
       | Inr c \<Rightarrow>
           map_of (params (last (sent (snd (Image_search net a \<lparr>this = c, sent = l\<rparr>))))) ''key''
             = Some k)
   \<and> (case Video_init k of
         Inl e \<Rightarrow> False
       | Inr c \<Rightarrow>
           map_of (params (last (sent (snd (Video_search net' b \<lparr>this = c, sent = l\<rparr>))))) ''key''
             = Some k)"
  by (simp add: Image_search_request Video_search_request Image_payload_def Video_payload_def
        Image_init_def Video_init_def IPixabay_init_def)

section \<open>The target URL\<close>

text \<open>
  C5. For every options value, image search sends its GET to exactly the base URL and
  video search to the base URL followed by \<^verbatim>\<open>videos/\<close>; no option field enters the
  URL. For a client fresh from the constructor the two targets are the constants
  \<^verbatim>\<open>https://pixabay.com/api/\<close> and \<^verbatim>\<open>https://pixabay.com/api/videos/\<close>.
\<close>

theorem search_target_url:
  "url (last (sent (snd (Image_search net a s)))) = root_url (this s)
   \<and> url (last (sent (snd (Video_search net' b s')))) = root_url (this s') @ ''videos/''
   \<and> (case Image_init k of
         Inl e \<Rightarrow> False
       | Inr c \<Rightarrow>
           url (last (sent (snd (Image_search net a \<lparr>this = c, sent = l\<rparr>))))
             = ''https://pixabay.com/api/'')
   \<and> (case Video_init k of
         Inl e \<Rightarrow> False
       | Inr c \<Rightarrow>
           url (last (sent (snd (Video_search net' b \<lparr>this = c, sent = l\<rparr>))))
             = ''https://pixabay.com/api/videos/'')"
  by (simp add: Image_search_request Video_search_request
        Image_init_def Video_init_def IPixabay_init_def)

section \<open>Boolean-style and integer fields\<close>

lemma boolean_string_param:
  "boolean_string x \<Longrightarrow>
     Some (param x (PyStr ''false'')) \<in> {Some (PyStr ''true''), Some (PyStr ''false'')}"
  unfolding boolean_string_def param_def by (elim disjE) simp_all

lemma Image_payload_flags:
  "map_of (Image_payload self a) ''editors_choice'' =
     Some (param (editors_choice a) (PyStr ''false''))"
  "map_of (Image_payload self a) ''safesearch'' = Some (param (safesearch a) (PyStr ''false''))"
  "map_of (Image_payload self a) ''pretty'' = Some (param (pretty a) (PyStr ''false''))"
  by (simp_all add: Image_payload_def)

lemma Video_payload_flags:
  "map_of (Video_payload self a) ''editors_choice'' =
     Some (param (editors_choice a) (PyStr ''false''))"
  "map_of (Video_payload self a) ''safesearch'' = Some (param (safesearch a) (PyStr ''false''))"
  "map_of (Video_payload self a) ''pretty'' = Some (param (pretty a) (PyStr ''false''))"
  by (simp_all add: Video_payload_def)

text \<open>
  C6, as the code has it. The search converts nothing: for each of \<^verbatim>\<open>editors_choice\<close>,
  \<^verbatim>\<open>safesearch\<close> and \<^verbatim>\<open>pretty\<close> the value sent is the value the caller supplied,
  whatever it is, and the string "false" when the caller left the argument out. So when
  each of the three is left out or supplied as one of the strings "true" and "false" (the
  accepted values of the docstring), the value sent for each of these fields is the
  literal string "true" or "false".
\<close>

theorem boolean_strings_forwarded:
  "(map_of (params (last (sent (snd (Image_search net a s))))) ''editors_choice''
       = Some (case editors_choice a of None \<Rightarrow> PyStr ''false'' | Some v \<Rightarrow> v)
    \<and> map_of (params (last (sent (snd (Image_search net a s))))) ''safesearch''
       = Some (case safesearch a of None \<Rightarrow> PyStr ''false'' | Some v \<Rightarrow> v)
    \<and> map_of (params (last (sent (snd (Image_search net a s))))) ''pretty''
       = Some (case pretty a of None \<Rightarrow> PyStr ''false'' | Some v \<Rightarrow> v)
    \<and> map_of (params (last (sent (snd (Video_search net' b s'))))) ''editors_choice''
       = Some (case editors_choice b of None \<Rightarrow> PyStr ''false'' | Some v \<Rightarrow> v)
    \<and> map_of (params (last (sent (snd (Video_search net' b s'))))) ''safesearch''
       = Some (case safesearch b of None \<Rightarrow> PyStr ''false'' | Some v \<Rightarrow> v)
    \<and> map_of (params (last (sent (snd (Video_search net' b s'))))) ''pretty''
       = Some (case pretty b of None \<Rightarrow> PyStr ''false'' | Some v \<Rightarrow> v))
   \<and> (boolean_string (editors_choice a) \<and> boolean_string (safesearch a)
        \<and> boolean_string (pretty a)
      \<longrightarrow> map_of (params (last (sent (snd (Image_search net a s))))) ''editors_choice''
           \<in> {Some (PyStr ''true''), Some (PyStr ''false'')}
        \<and> map_of (params (last (sent (snd (Image_search net a s))))) ''safesearch''
           \<in> {Some (PyStr ''true''), Some (PyStr ''false'')}
        \<and> map_of (params (last (sent (snd (Image_search net a s))))) ''pretty''
           \<in> {Some (PyStr ''true''), Some (PyStr ''false'')})
   \<and> (boolean_string (editors_choice b) \<and> boolean_string (safesearch b)
        \<and> boolean_string (pretty b)
      \<longrightarrow> map_of (params (last (sent (snd (Video_search net' b s'))))) ''editors_choice''
           \<in> {Some (PyStr ''true''), Some (PyStr ''false'')}
        \<and> map_of (params (last (sent (snd (Video_search net' b s'))))) ''safesearch''
           \<in> {Some (PyStr ''true''), Some (PyStr ''false'')}
        \<and> map_of (params (last (sent (snd (Video_search net' b s'))))) ''pretty''
           \<in> {Some (PyStr ''true''), Some (PyStr ''false'')})"
proof (intro conjI impI)
  show "map_of (params (last (sent (snd (Image_search net a s))))) ''editors_choice''
       = Some (case editors_choice a of None \<Rightarrow> PyStr ''false'' | Some v \<Rightarrow> v)"
    and "map_of (params (last (sent (snd (Image_search net a s))))) ''safesearch''
       = Some (case safesearch a of None \<Rightarrow> PyStr ''false'' | Some v \<Rightarrow> v)"
    and "map_of (params (last (sent (snd (Image_search net a s))))) ''pretty''
       = Some (case pretty a of None \<Rightarrow> PyStr ''false'' | Some v \<Rightarrow> v)"
    by (simp_all add: Image_search_request Image_payload_flags param_def)
next
  show "map_of (params (last (sent (snd (Video_search net' b s'))))) ''editors_choice''
       = Some (case editors_choice b of None \<Rightarrow> PyStr ''false'' | Some v \<Rightarrow> v)"
    and "map_of (params (last (sent (snd (Video_search net' b s'))))) ''safesearch''
       = Some (case safesearch b of None \<Rightarrow> PyStr ''false'' | Some v \<Rightarrow> v)"
    and "map_of (params (last (sent (snd (Video_search net' b s'))))) ''pretty''
       = Some (case pretty b of None \<Rightarrow> PyStr ''false'' | Some v \<Rightarrow> v)"
    by (simp_all add: Video_search_request Video_payload_flags param_def)
next
  assume "boolean_string (editors_choice a) \<and> boolean_string (safesearch a)
        \<and> boolean_string (pretty a)"
  then have flags: "boolean_string (editors_choice a)" "boolean_string (safesearch a)"
    "boolean_string (pretty a)" by simp_all
  show "map_of (params (last (sent (snd (Image_search net a s))))) ''editors_choice''
           \<in> {Some (PyStr ''true''), Some (PyStr ''false'')}"
    and "map_of (params (last (sent (snd (Image_search net a s))))) ''safesearch''
           \<in> {Some (PyStr ''true''), Some (PyStr ''false'')}"
    and "map_of (params (last (sent (snd (Image_search net a s))))) ''pretty''
           \<in> {Some (PyStr ''true''), Some (PyStr ''false'')}"
    unfolding Image_search_request request.simps Image_payload_flags
    by (rule boolean_string_param, rule flags)+
next
  assume "boolean_string (editors_choice b) \<and> boolean_string (safesearch b)
        \<and> boolean_string (pretty b)"
  then have flags: "boolean_string (editors_choice b)" "boolean_string (safesearch b)"
    "boolean_string (pretty b)" by simp_all
  show "map_of (params (last (sent (snd (Video_search net' b s'))))) ''editors_choice''
           \<in> {Some (PyStr ''true''), Some (PyStr ''false'')}"
    and "map_of (params (last (sent (snd (Video_search net' b s'))))) ''safesearch''
           \<in> {Some (PyStr ''true''), Some (PyStr ''false'')}"
    and "map_of (params (last (sent (snd (Video_search net' b s'))))) ''pretty''
           \<in> {Some (PyStr ''true''), Some (PyStr ''false'')}"
    unfolding Video_search_request request.simps Video_payload_flags
    by (rule boolean_string_param, rule flags)+
qed

text \<open>
  C6, witness: an image search with \<^verbatim>\<open>editors_choice="true"\<close> and a video search with
  \<^verbatim>\<open>safesearch="true"\<close>, \<^verbatim>\<open>pretty="false"\<close>, every other argument left out.
\<close>

theorem boolean_strings_forwarded_witness:
  "boolean_string (editors_choice (no_image_args\<lparr>editors_choice := Some (PyStr ''true'')\<rparr>))
   \<and> boolean_string (safesearch (no_image_args\<lparr>editors_choice := Some (PyStr ''true'')\<rparr>))
   \<and> boolean_string (pretty (no_image_args\<lparr>editors_choice := Some (PyStr ''true'')\<rparr>))
   \<and> boolean_string (editors_choice
         (no_video_args\<lparr>safesearch := Some (PyStr ''true''), pretty := Some (PyStr ''false'')\<rparr>))
   \<and> boolean_string (safesearch
         (no_video_args\<lparr>safesearch := Some (PyStr ''true''), pretty := Some (PyStr ''false'')\<rparr>))
   \<and> boolean_string (pretty
         (no_video_args\<lparr>safesearch := Some (PyStr ''true''), pretty := Some (PyStr ''false'')\<rparr>))
   \<and> map_of (params (last (sent (snd
         (Image_search (answering hits_response)
            (no_image_args\<lparr>editors_choice := Some (PyStr ''true'')\<rparr>) example_state)))))
         ''editors_choice'' \<in> {Some (PyStr ''true''), Some (PyStr ''false'')}
   \<and> map_of (params (last (sent (snd
         (Image_search (answering hits_response)
            (no_image_args\<lparr>editors_choice := Some (PyStr ''true'')\<rparr>) example_state)))))
         ''editors_choice'' = Some (PyStr ''true'')
   \<and> map_of (params (last (sent (snd
         (Video_search (answering hits_response)
            (no_video_args\<lparr>safesearch := Some (PyStr ''true''), pretty := Some (PyStr ''false'')\<rparr>)
            example_state)))))
         ''safesearch'' = Some (PyStr ''true'')"
  using boolean_strings_forwarded
    [where a = "no_image_args\<lparr>editors_choice := Some (PyStr ''true'')\<rparr>"
       and b = "no_video_args\<lparr>safesearch := Some (PyStr ''true''),
                               pretty := Some (PyStr ''false'')\<rparr>"
       and net = "answering hits_response" and s = example_state
       and net' = "answering hits_response" and s' = example_state]
  by (simp add: boolean_string_def no_image_args_def no_video_args_def
        Image_search_request Video_search_request Image_payload_flags Video_payload_flags
        param_def)

text \<open>
  C6, counterexample to the claim as written ("however the caller supplies them, never a
  native boolean"): the caller passes \<^verbatim>\<open>editors_choice=True\<close>, and the payload sent
  carries the native boolean \<^verbatim>\<open>True\<close>, which is neither of the two strings.
\<close>

theorem native_boolean_counterexample:
  "map_of (params (last (sent (snd
      (Image_search
         (answering \<lparr>status_code = 200, text = ''{}'', json = Inr (JObj [])\<rparr>)
         (no_image_args\<lparr>editors_choice := Some (PyBool True)\<rparr>)
         \<lparr>this = \<lparr>api_key = PyStr ''api_key'', root_url = ''https://pixabay.com/api/''\<rparr>,
          sent = []\<rparr>))))) ''editors_choice''
     = Some (PyBool True)
   \<and> PyBool True \<noteq> PyStr ''true'' \<and> PyBool True \<noteq> PyStr ''false''"
  by (simp add: Image_search_request Image_payload_flags no_image_args_def param_def)

lemma Image_payload_integers:
  "map_of (Image_payload self a) ''min_width'' = Some (param (min_width a) (PyInt 0))"
  "map_of (Image_payload self a) ''min_height'' = Some (param (min_height a) (PyInt 0))"
  "map_of (Image_payload self a) ''page'' = Some (param (page a) (PyInt 1))"
  "map_of (Image_payload self a) ''per_page'' = Some (param (per_page a) (PyInt 20))"
  by (simp_all add: Image_payload_def)

lemma Video_payload_integers:
  "map_of (Video_payload self a) ''min_width'' = Some (param (min_width a) (PyInt 0))"
  "map_of (Video_payload self a) ''min_height'' = Some (param (min_height a) (PyInt 0))"
  "map_of (Video_payload self a) ''page'' = Some (param (page a) (PyInt 1))"
  "map_of (Video_payload self a) ''per_page'' = Some (param (per_page a) (PyInt 20))"
  by (simp_all add: Video_payload_def)

text \<open>
  C7. For all integers \<open>w\<close>, \<open>h\<close>, \<open>p\<close>, \<open>n\<close> supplied as \<^verbatim>\<open>min_width\<close>,
  \<^verbatim>\<open>min_height\<close>, \<^verbatim>\<open>page\<close> and \<^verbatim>\<open>per_page\<close>, in or out of the remote API's ranges,
  the payload sent carries exactly these integers: nothing is clamped or checked. Nor is
  anything rejected locally: the request goes out, and when the remote side answers 200
  with a JSON body the search returns it.
\<close>

theorem integers_forwarded_unchanged:
  "map_of (params (last (sent (snd (Image_search net (with_integers w h p n a) s)))))
       ''min_width'' = Some (PyInt w)
   \<and> map_of (params (last (sent (snd (Image_search net (with_integers w h p n a) s)))))
       ''min_height'' = Some (PyInt h)
   \<and> map_of (params (last (sent (snd (Image_search net (with_integers w h p n a) s)))))
       ''page'' = Some (PyInt p)
   \<and> map_of (params (last (sent (snd (Image_search net (with_integers w h p n a) s)))))
       ''per_page'' = Some (PyInt n)
   \<and> map_of (params (last (sent (snd (Video_search net' (with_integers w h p n b) s')))))
       ''min_width'' = Some (PyInt w)
   \<and> map_of (params (last (sent (snd (Video_search net' (with_integers w h p n b) s')))))
       ''min_height'' = Some (PyInt h)
   \<and> map_of (params (last (sent (snd (Video_search net' (with_integers w h p n b) s')))))
       ''page'' = Some (PyInt p)
   \<and> map_of (params (last (sent (snd (Video_search net' (with_integers w h p n b) s')))))
       ''per_page'' = Some (PyInt n)
   \<and> fst (Image_search (answering \<lparr>status_code = 200, text = t, json = Inr j\<rparr>)
            (with_integers w h p n a) s) = Inr j
   \<and> fst (Video_search (answering \<lparr>status_code = 200, text = t, json = Inr j\<rparr>)
            (with_integers w h p n b) s') = Inr j"
  by (simp add: Image_search_request Video_search_request Image_payload_integers
        Video_payload_integers Image_search_result Video_search_result with_integers_def
        param_def answering_def)

section \<open>Effects of a call\<close>

text \<open>
  C8. Every call of image search or video search issues exactly one GET, whatever the
  remote side does (a 200, another status, or no response at all): the log of requests
  grows by the one request of the call, so its length grows by one; there is no second
  attempt. The call changes nothing else of the state.
\<close>

theorem search_issues_one_get:
  "sent (snd (Image_search net a s)) =
     sent s @ [\<lparr>url = root_url (this s), params = Image_payload (this s) a\<rparr>]
   \<and> length (sent (snd (Image_search net a s))) = length (sent s) + 1
   \<and> snd (Image_search net a s) =
     s\<lparr>sent := sent s @ [\<lparr>url = root_url (this s), params = Image_payload (this s) a\<rparr>]\<rparr>
   \<and> sent (snd (Video_search net' b s')) =
     sent s' @ [\<lparr>url = root_url (this s') @ ''videos/'', params = Video_payload (this s') b\<rparr>]
   \<and> length (sent (snd (Video_search net' b s'))) = length (sent s') + 1
   \<and> snd (Video_search net' b s') =
     s'\<lparr>sent := sent s' @ [\<lparr>url = root_url (this s') @ ''videos/'',
                               params = Video_payload (this s') b\<rparr>]\<rparr>"
  by (simp add: Image_search_state Video_search_state)

text \<open>
  C9. No call of image search or video search changes the client: whether the call
  returns or fails, the API key and the base URL stored in the client are afterwards
  what they were before, and for a client fresh from the constructor they are still the
  key given to the constructor and the constant base URL.
\<close>

theorem search_keeps_client:
  "this (snd (Image_search net a s)) = this s
   \<and> api_key (this (snd (Image_search net a s))) = api_key (this s)
   \<and> root_url (this (snd (Image_search net a s))) = root_url (this s)
   \<and> this (snd (Video_search net' b s')) = this s'
   \<and> api_key (this (snd (Video_search net' b s'))) = api_key (this s')
   \<and> root_url (this (snd (Video_search net' b s'))) = root_url (this s')
   \<and> (case Image_init k of
         Inl e \<Rightarrow> False
       | Inr c \<Rightarrow>
           this (snd (Image_search net a \<lparr>this = c, sent = l\<rparr>)) =
             \<lparr>api_key = k, root_url = ''https://pixabay.com/api/''\<rparr>)
   \<and> (case Video_init k of
         Inl e \<Rightarrow> False
       | Inr c \<Rightarrow>
           this (snd (Video_search net' b \<lparr>this = c, sent = l\<rparr>)) =
             \<lparr>api_key = k, root_url = ''https://pixabay.com/api/''\<rparr>)"
  by (simp add: Image_search_state Video_search_state
        Image_init_def Video_init_def IPixabay_init_def)

section \<open>Construction\<close>

text \<open>
  C10. For every value given as the API key, the empty string included, constructing an
  image client or a video client succeeds: the key is stored as given, the base URL is
  the constant \<^verbatim>\<open>https://pixabay.com/api/\<close> whatever the key, and both resource types
  get the same base URL.
\<close>

theorem constructor_total:
  "Image_init k = Inr \<lparr>api_key = k, root_url = ''https://pixabay.com/api/''\<rparr>
   \<and> Video_init k = Inr \<lparr>api_key = k, root_url = ''https://pixabay.com/api/''\<rparr>
   \<and> Image_init (PyStr []) =
       Inr \<lparr>api_key = PyStr [], root_url = ''https://pixabay.com/api/''\<rparr>
   \<and> Video_init (PyStr []) =
       Inr \<lparr>api_key = PyStr [], root_url = ''https://pixabay.com/api/''\<rparr>"
  by (simp add: Image_init_def Video_init_def IPixabay_init_def)

end
